theory Spec2Isabelle
  imports Main "HOL-Library.Char_ord" "HOL-Library.List_Lexorder"
begin

section \<open>Failures\<close>

text \<open>
  The header file has two ways of not returning a value: a failed \<^verbatim>\<open>assert\<close>
  (its own, in the three name functions, and the one the JSON library makes when a
  constant object is indexed by a key it does not hold), and the exception
  the JSON library throws when a value that is neither null nor an object is indexed
  by a string. Both are values of the model. With \<^verbatim>\<open>NDEBUG\<close> defined the
  assertions are compiled out and the same paths have no defined behaviour; the model
  makes no difference between the two builds.
\<close>

datatype failure = Assertion_failed string | Type_error

section \<open>The enumerations and their name functions\<close>

text \<open>
  \<^verbatim>\<open>enum class algorithm\<close>: eleven enumerators, numbered from \<open>NONE = 0\<close> on.
  The last one, \<^verbatim>\<open>TERM\<close>, is written \<open>TERM'\<close> here.
\<close>

datatype algorithm =
  NONE | HS256 | HS384 | HS512 | RS256 | RS384 | RS512 | ES256 | ES384 | ES512 | TERM'

fun algorithm_value :: "algorithm \<Rightarrow> int" where
  "algorithm_value NONE = 0"
| "algorithm_value HS256 = 1"
| "algorithm_value HS384 = 2"
| "algorithm_value HS512 = 3"
| "algorithm_value RS256 = 4"
| "algorithm_value RS384 = 5"
| "algorithm_value RS512 = 6"
| "algorithm_value ES256 = 7"
| "algorithm_value ES384 = 8"
| "algorithm_value ES512 = 9"
| "algorithm_value TERM' = 10"

text \<open>
  The \<^verbatim>\<open>switch\<close> of \<^verbatim>\<open>alg_to_str\<close>, on the underlying integer, in the order
  of its \<^verbatim>\<open>case\<close> labels; the \<^verbatim>\<open>default\<close> label is the failing assertion.
\<close>

definition alg_to_str_switch :: "int \<Rightarrow> failure + string" where
  "alg_to_str_switch v =
     (if v = 1 then Inr ''HS256''
      else if v = 2 then Inr ''HS384''
      else if v = 3 then Inr ''HS512''
      else if v = 4 then Inr ''RS256''
      else if v = 5 then Inr ''RS384''
      else if v = 6 then Inr ''RS512''
      else if v = 7 then Inr ''ES256''
      else if v = 8 then Inr ''ES384''
      else if v = 9 then Inr ''ES512''
      else if v = 10 then Inr ''TERM''
      else if v = 0 then Inr ''NONE''
      else Inl (Assertion_failed ''Unknown Algorithm''))"

definition alg_to_str :: "algorithm \<Rightarrow> failure + string" where
  "alg_to_str alg = alg_to_str_switch (algorithm_value alg)"

text \<open>\<^verbatim>\<open>enum class type\<close> has the single enumerator \<open>JWT = 0\<close>.\<close>

datatype type = JWT

fun type_value :: "type \<Rightarrow> int" where
  "type_value JWT = 0"

definition type_to_str_switch :: "int \<Rightarrow> failure + string" where
  "type_to_str_switch v =
     (if v = 0 then Inr ''JWT'' else Inl (Assertion_failed ''Unknown type''))"

definition type_to_str :: "type \<Rightarrow> failure + string" where
  "type_to_str typ = type_to_str_switch (type_value typ)"

text \<open>\<^verbatim>\<open>enum class registered_claims\<close>, numbered from \<open>expiration = 0\<close> on.\<close>

datatype registered_claims =
  expiration | not_before | issuer | audience | issued_at | subject | jti

fun registered_claims_value :: "registered_claims \<Rightarrow> int" where
  "registered_claims_value expiration = 0"
| "registered_claims_value not_before = 1"
| "registered_claims_value issuer = 2"
| "registered_claims_value audience = 3"
| "registered_claims_value issued_at = 4"
| "registered_claims_value subject = 5"
| "registered_claims_value jti = 6"

definition reg_claims_to_str_switch :: "int \<Rightarrow> failure + string" where
  "reg_claims_to_str_switch v =
     (if v = 0 then Inr ''exp''
      else if v = 1 then Inr ''nbf''
      else if v = 2 then Inr ''iss''
      else if v = 3 then Inr ''aud''
      else if v = 4 then Inr ''iat''
      else if v = 5 then Inr ''sub''
      else if v = 6 then Inr ''jti''
      else Inl (Assertion_failed ''Not a registered claim''))"

definition reg_claims_to_str :: "registered_claims \<Rightarrow> failure + string" where
  "reg_claims_to_str claim = reg_claims_to_str_switch (registered_claims_value claim)"

section \<open>JSON values\<close>

text \<open>
  \<^verbatim>\<open>json_t\<close> is \<^verbatim>\<open>nlohmann::json\<close>. Its object is a \<^verbatim>\<open>std::map\<close> from
  \<^verbatim>\<open>std::string\<close> to values: the keys are unique and kept in the bytewise
  lexicographic order of \<^verbatim>\<open>std::less\<close>, and two objects are equal when they hold
  the same entries. An object is modelled by its entries in key order, so that equality
  of models is equality of objects. Floating point numbers are left out.
\<close>

datatype json =
  JNull
| JBool bool
| JInt int
| JString string
| JArray "json list"
| JObject "(string \<times> json) list"

text \<open>\<^verbatim>\<open>std::map::operator[]\<close> followed by an assignment to the reference it returns.\<close>

fun object_assign :: "string \<Rightarrow> json \<Rightarrow> (string \<times> json) list \<Rightarrow> (string \<times> json) list" where
  "object_assign k v [] = [(k, v)]"
| "object_assign k v ((k', v') # kvs) =
     (if k = k' then (k, v) # kvs
      else if k < k' then (k, v) # (k', v') # kvs
      else (k', v') # object_assign k v kvs)"

text \<open>
  \<^verbatim>\<open>j[key] = v\<close> on a mutable value: a null value becomes an empty object first, an
  object gets the entry, anything else throws.
\<close>

fun json_assign :: "string \<Rightarrow> json \<Rightarrow> json \<Rightarrow> failure + json" where
  "json_assign k v JNull = Inr (JObject (object_assign k v []))"
| "json_assign k v (JObject kvs) = Inr (JObject (object_assign k v kvs))"
| "json_assign k v j = Inl Type_error"

text \<open>
  \<^verbatim>\<open>j[key]\<close> on a constant value: the library asserts that the key is there and
  returns the entry; a value that is not an object throws.
\<close>

fun json_at :: "json \<Rightarrow> string \<Rightarrow> failure + json" where
  "json_at (JObject kvs) k =
     (case map_of kvs k of
        None \<Rightarrow> Inl (Assertion_failed ''key not found'')
      | Some v \<Rightarrow> Inr v)"
| "json_at j k = Inl Type_error"

section \<open>The header\<close>

text \<open>
  The data members \<^verbatim>\<open>alg_\<close> and \<^verbatim>\<open>typ_\<close>; a name cannot end in an underscore here,
  so the fields are \<open>alg'\<close> and \<open>typ'\<close>.
\<close>

record jwt_header =
  alg' :: algorithm
  typ' :: type

text \<open>The default member initialisers of \<^verbatim>\<open>jwt_header() = default\<close>.\<close>

definition jwt_header_default :: jwt_header where
  "jwt_header_default = \<lparr>alg' = NONE, typ' = JWT\<rparr>"

text \<open>
  The overloaded members \<^verbatim>\<open>algo\<close> and \<^verbatim>\<open>typ\<close>: the one with an argument is the
  setter (\<open>_set\<close>), the one without is the getter (\<open>_get\<close>).
\<close>

definition algo_set :: "algorithm \<Rightarrow> jwt_header \<Rightarrow> jwt_header" where
  "algo_set alg h = h\<lparr>alg' := alg\<rparr>"

definition algo_get :: "jwt_header \<Rightarrow> algorithm" where
  "algo_get h = alg' h"

definition typ_set :: "type \<Rightarrow> jwt_header \<Rightarrow> jwt_header" where
  "typ_set t h = h\<lparr>typ' := t\<rparr>"

definition typ_get :: "jwt_header \<Rightarrow> type" where
  "typ_get h = typ' h"

definition header_create_json_obj :: "jwt_header \<Rightarrow> failure + json" where
  "header_create_json_obj h =
     (case type_to_str (typ' h) of
        Inl e \<Rightarrow> Inl e
      | Inr t \<Rightarrow>
          (case json_assign ''typ'' (JString t) (JObject []) of
             Inl e \<Rightarrow> Inl e
           | Inr obj \<Rightarrow>
               (case alg_to_str (alg' h) of
                  Inl e \<Rightarrow> Inl e
                | Inr a \<Rightarrow> json_assign ''alg'' (JString a) obj)))"

section \<open>The payload\<close>

subsection \<open>The order on claim names\<close>

text \<open>
  \<^verbatim>\<open>strcasecmp\<close> is the C library's, in the \<^verbatim>\<open>"C"\<close> locale: \<^verbatim>\<open>tolower\<close> moves
  the bytes \<open>A\<close> to \<open>Z\<close> (65 to 90) by 32 and leaves every other byte alone; the
  two strings are compared byte by byte, as unsigned bytes, after \<^verbatim>\<open>tolower\<close>, and the
  result is the difference at the first place where they differ, or 0.
\<close>

definition tolower :: "char \<Rightarrow> char" where
  "tolower c = (let n = (of_char c :: nat) in if 65 \<le> n \<and> n \<le> 90 then char_of (n + 32) else c)"

text \<open>
  \<^verbatim>\<open>c_str()\<close> and \<^verbatim>\<open>data()\<close> read as a C string: the bytes of the
  \<^verbatim>\<open>std::string\<close> up to its first zero byte, if it has one.
\<close>

definition c_str :: "string \<Rightarrow> string" where
  "c_str s = takeWhile (\<lambda>c. c \<noteq> CHR 0x00) s"

fun strcasecmp :: "string \<Rightarrow> string \<Rightarrow> int" where
  "strcasecmp [] [] = 0"
| "strcasecmp [] (b # bs) = 0 - int (of_char (tolower b))"
| "strcasecmp (a # as) [] = int (of_char (tolower a)) - 0"
| "strcasecmp (a # as) (b # bs) =
     (if tolower a = tolower b then strcasecmp as bs
      else int (of_char (tolower a)) - int (of_char (tolower b)))"

definition case_compare :: "string \<Rightarrow> string \<Rightarrow> bool" where
  "case_compare lhs rhs = (let ret = strcasecmp (c_str lhs) (c_str rhs) in ret < 0)"

subsection \<open>The set of claim names\<close>

text \<open>
  \<^verbatim>\<open>std::set<std::string, case_compare>\<close>, by the contract of \<^verbatim>\<open>std::set\<close>: two
  keys are equivalent when neither is before the other; \<^verbatim>\<open>find\<close> gives an element
  equivalent to the key, if there is one; \<^verbatim>\<open>count\<close> is 1 or 0 accordingly;
  \<^verbatim>\<open>emplace\<close> inserts the key, at its place in the order, only when no element is
  equivalent to it. The set is modelled by the list of its elements in iteration order.
\<close>

definition equivalent :: "string \<Rightarrow> string \<Rightarrow> bool" where
  "equivalent a b = (\<not> case_compare a b \<and> \<not> case_compare b a)"

definition set_find :: "string \<Rightarrow> string list \<Rightarrow> string option" where
  "set_find k xs = find (\<lambda>e. equivalent e k) xs"

definition set_count :: "string \<Rightarrow> string list \<Rightarrow> nat" where
  "set_count k xs = (case set_find k xs of None \<Rightarrow> 0 | Some e \<Rightarrow> 1)"

fun set_insert :: "string \<Rightarrow> string list \<Rightarrow> string list" where
  "set_insert k [] = [k]"
| "set_insert k (e # es) = (if case_compare k e then k # e # es else e # set_insert k es)"

definition set_emplace :: "string \<Rightarrow> string list \<Rightarrow> string list" where
  "set_emplace k xs = (case set_find k xs of None \<Rightarrow> set_insert k xs | Some e \<Rightarrow> xs)"

subsection \<open>The payload and its operations\<close>

text \<open>
  The data members \<^verbatim>\<open>payload_\<close> (a default-constructed \<^verbatim>\<open>json_t\<close> is null) and
  \<^verbatim>\<open>claim_names_\<close>.
\<close>

record jwt_payload =
  payload' :: json
  claim_names' :: "string list"

definition jwt_payload_default :: jwt_payload where
  "jwt_payload_default = \<lparr>payload' = JNull, claim_names' = []\<rparr>"

text \<open>
  \<^verbatim>\<open>add_claim\<close> returns the flag together with the payload it leaves behind. The name
  goes into the set with its full length, and into the JSON value through
  \<^verbatim>\<open>cname.data()\<close>, a C string. The set is extended before the JSON value is
  assigned; when the assignment throws, the model keeps only the failure.
\<close>

definition add_claim :: "string \<Rightarrow> json \<Rightarrow> bool \<Rightarrow> jwt_payload \<Rightarrow> failure + (bool \<times> jwt_payload)" where
  "add_claim cname cvalue overwrite p =
     (let itr = set_find cname (claim_names' p) in
      if itr \<noteq> None \<and> \<not> overwrite then Inr (False, p)
      else
        (let names = set_emplace cname (claim_names' p) in
         case json_assign (c_str cname) cvalue (payload' p) of
           Inl e \<Rightarrow> Inl e
         | Inr j \<Rightarrow> Inr (True, \<lparr>payload' = j, claim_names' = names\<rparr>)))"

definition has_claim :: "string \<Rightarrow> jwt_payload \<Rightarrow> bool" where
  "has_claim cname p = (set_count cname (claim_names' p) \<noteq> 0)"

definition has_claim_with_value :: "string \<Rightarrow> json \<Rightarrow> jwt_payload \<Rightarrow> failure + bool" where
  "has_claim_with_value cname cvalue p =
     (let itr = set_find cname (claim_names' p) in
      if itr = None then Inr False
      else
        (case json_at (payload' p) cname of
           Inl e \<Rightarrow> Inl e
         | Inr j \<Rightarrow> Inr (cvalue = j)))"

definition payload_create_json_obj :: "jwt_payload \<Rightarrow> json" where
  "payload_create_json_obj p = payload' p"

text \<open>
  Two names are equal up to ASCII case when they have the same bytes once every
  upper-case ASCII letter is replaced by its lower-case form.
\<close>

definition equal_up_to_ascii_case :: "string \<Rightarrow> string \<Rightarrow> bool" where
  "equal_up_to_ascii_case a b = (map tolower a = map tolower b)"

section \<open>The signature and the token object\<close>

text \<open>
  \<^verbatim>\<open>struct jwt_signature\<close> and \<^verbatim>\<open>class jwt_object\<close> are declared with empty
  bodies: they have no data member and no member function, so each has a single value.
\<close>

type_synonym jwt_signature = unit

type_synonym jwt_object = unit

section \<open>The name functions\<close>

text \<open>
  Claim C7. \<^verbatim>\<open>reg_claims_to_str\<close> gives the seven registered claims their wire names:
  expiration is \<open>exp\<close>, not_before is \<open>nbf\<close>, issuer is \<open>iss\<close>, audience is
  \<open>aud\<close>, issued_at is \<open>iat\<close>, subject is \<open>sub\<close> and jti is \<open>jti\<close>.
\<close>

theorem reg_claims_to_str_wire_names:
  "reg_claims_to_str expiration = Inr ''exp'' \<and>
   reg_claims_to_str not_before = Inr ''nbf'' \<and>
   reg_claims_to_str issuer = Inr ''iss'' \<and>
   reg_claims_to_str audience = Inr ''aud'' \<and>
   reg_claims_to_str issued_at = Inr ''iat'' \<and>
   reg_claims_to_str subject = Inr ''sub'' \<and>
   reg_claims_to_str jti = Inr ''jti''"
  by (simp add: reg_claims_to_str_def reg_claims_to_str_switch_def)

text \<open>
  Claim C8. On every enumerator of \<^verbatim>\<open>algorithm\<close> and of \<^verbatim>\<open>type\<close> the functions
  \<^verbatim>\<open>alg_to_str\<close> and \<^verbatim>\<open>type_to_str\<close> return a name, and never the failure of
  one of their assertions. They are functions of their argument alone.
\<close>

theorem name_functions_total:
  "(\<exists>s. alg_to_str a = Inr s) \<and> (\<exists>s. type_to_str t = Inr s) \<and>
   alg_to_str a \<noteq> Inl e \<and> type_to_str t \<noteq> Inl e"
proof -
  have "\<exists>s. alg_to_str a = Inr s"
    by (cases a) (simp_all add: alg_to_str_def alg_to_str_switch_def)
  moreover have "\<exists>s. type_to_str t = Inr s"
    by (cases t) (simp add: type_to_str_def type_to_str_switch_def)
  ultimately show ?thesis
    by auto
qed

text \<open>
  Claim C4, as the code has it. The enumeration \<^verbatim>\<open>algorithm\<close> has eleven
  enumerators: the ten algorithms and \<^verbatim>\<open>TERM\<close>. \<^verbatim>\<open>alg_to_str\<close> gives each of the
  eleven its name, \<^verbatim>\<open>TERM\<close> included, and the \<^verbatim>\<open>switch\<close> reaches its failing
  assertion exactly on the underlying values that are below 0 or above 10.
\<close>

theorem alg_to_str_eleven_names:
  "a \<in> set [NONE, HS256, HS384, HS512, RS256, RS384, RS512, ES256, ES384, ES512, TERM'] \<and>
   map alg_to_str [NONE, HS256, HS384, HS512, RS256, RS384, RS512, ES256, ES384, ES512, TERM']
     = map Inr [''NONE'', ''HS256'', ''HS384'', ''HS512'', ''RS256'', ''RS384'', ''RS512'',
                ''ES256'', ''ES384'', ''ES512'', ''TERM''] \<and>
   isl (alg_to_str_switch v) = (v < 0 \<or> 10 < v)"
proof -
  have "a \<in> set [NONE, HS256, HS384, HS512, RS256, RS384, RS512, ES256, ES384, ES512, TERM']"
    by (cases a) simp_all
  moreover have "isl (alg_to_str_switch v) = (v < 0 \<or> 10 < v)"
    by (simp add: alg_to_str_switch_def) arith
  ultimately show ?thesis
    by (simp add: alg_to_str_def alg_to_str_switch_def)
qed

text \<open>
  Claim C4, as it is written, says that the enumeration has exactly ten values and that
  nothing else has a name. \<^verbatim>\<open>TERM\<close> is an eleventh value, and it has one.
\<close>

theorem algorithm_ten_values_counterexample:
  "TERM' \<notin> set [NONE, HS256, HS384, HS512, RS256, RS384, RS512, ES256, ES384, ES512] \<and>
   alg_to_str TERM' = Inr ''TERM''"
  by (simp add: alg_to_str_def alg_to_str_switch_def)

section \<open>The header's JSON object\<close>

text \<open>
  Claim C10. A default-constructed header has the algorithm \<^verbatim>\<open>NONE\<close> and the type
  \<^verbatim>\<open>JWT\<close>, and its JSON object is \<^verbatim>\<open>{"alg": "NONE", "typ": "JWT"}\<close>.
\<close>

theorem default_header_json_obj:
  "algo_get jwt_header_default = NONE \<and> typ_get jwt_header_default = JWT \<and>
   header_create_json_obj jwt_header_default
     = Inr (JObject [(''alg'', JString ''NONE''), (''typ'', JString ''JWT'')])"
  by (simp add: jwt_header_default_def algo_get_def typ_get_def header_create_json_obj_def
      alg_to_str_def alg_to_str_switch_def type_to_str_def type_to_str_switch_def)

text \<open>
  Claim C5. After \<^verbatim>\<open>algo(a)\<close>, whatever the header was, \<^verbatim>\<open>create_json_obj\<close> gives
  the object with exactly the two entries \<open>alg\<close>, the name of \<open>a\<close>, and \<open>typ\<close>, the
  name \<open>JWT\<close>. The object is computed from the members as they are now: the algorithm
  the header held before the call has no influence on it.
\<close>

theorem algo_set_json_obj:
  "(\<exists>s. alg_to_str a = Inr s \<and>
        header_create_json_obj (algo_set a h)
          = Inr (JObject [(''alg'', JString s), (''typ'', JString ''JWT'')])) \<and>
   header_create_json_obj (algo_set a (algo_set b h)) = header_create_json_obj (algo_set a h)"
proof -
  have t: "type_to_str (typ' h) = Inr ''JWT''"
    by (cases "typ' h") (simp add: type_to_str_def type_to_str_switch_def)
  have "\<exists>s. alg_to_str a = Inr s \<and>
        header_create_json_obj (algo_set a h)
          = Inr (JObject [(''alg'', JString s), (''typ'', JString ''JWT'')])"
    by (cases a) (simp_all add: header_create_json_obj_def algo_set_def t
        alg_to_str_def alg_to_str_switch_def)
  moreover have "header_create_json_obj (algo_set a (algo_set b h))
      = header_create_json_obj (algo_set a h)"
    by (simp add: header_create_json_obj_def algo_set_def)
  ultimately show ?thesis
    by simp
qed

section \<open>Claim names up to case\<close>

text \<open>
  \<^verbatim>\<open>tolower\<close> sends only the zero byte to the zero byte, so \<^verbatim>\<open>strcasecmp\<close>
  gives 0 on two C strings exactly when they have the same bytes after \<^verbatim>\<open>tolower\<close>,
  and the equivalence of the set's order is that relation on the names read as C strings.
\<close>

lemma of_char_zero_iff: "(of_char c :: nat) = 0 \<longleftrightarrow> c = CHR 0x00"
proof
  assume "(of_char c :: nat) = 0"
  then have "(of_char c :: nat) = of_char (CHR 0x00)"
    by simp
  then show "c = CHR 0x00"
    by (simp only: of_char_eq_iff)
next
  assume "c = CHR 0x00"
  then show "(of_char c :: nat) = 0"
    by simp
qed

lemma tolower_NUL: "tolower c = CHR 0x00 \<longleftrightarrow> c = CHR 0x00"
proof (cases "65 \<le> (of_char c :: nat) \<and> (of_char c :: nat) \<le> 90")
  case True
  then have "(of_char (char_of (of_char c + 32 :: nat)) :: nat) = of_char c + 32"
    by simp
  then have "(of_char (char_of (of_char c + 32 :: nat)) :: nat) \<noteq> 0"
    by simp
  then have "char_of (of_char c + 32 :: nat) \<noteq> CHR 0x00"
    by (simp only: of_char_zero_iff not_False_eq_True)
  moreover from True have "c \<noteq> CHR 0x00"
    by auto
  ultimately show ?thesis
    using True by (simp add: tolower_def Let_def)
next
  case False
  then show ?thesis
    by (auto simp: tolower_def Let_def)
qed

lemma strcasecmp_swap: "strcasecmp b a = - strcasecmp a b"
  by (induction a b rule: strcasecmp.induct) auto

lemma strcasecmp_zero_iff:
  "CHR 0x00 \<notin> set a \<Longrightarrow> CHR 0x00 \<notin> set b \<Longrightarrow>
   strcasecmp a b = 0 \<longleftrightarrow> map tolower a = map tolower b"
proof (induction a b rule: strcasecmp.induct)
  case 1
  then show ?case by simp
next
  case (2 b bs)
  then show ?case by (auto simp: of_char_zero_iff tolower_NUL)
next
  case (3 a as)
  then show ?case by (auto simp: of_char_zero_iff tolower_NUL)
next
  case (4 a as b bs)
  then show ?case by auto
qed

lemma c_str_no_NUL: "CHR 0x00 \<notin> set (c_str s)"
  by (auto simp: c_str_def dest: set_takeWhileD)

lemma equivalent_iff: "equivalent a b \<longleftrightarrow> map tolower (c_str a) = map tolower (c_str b)"
proof -
  have "equivalent a b \<longleftrightarrow> strcasecmp (c_str a) (c_str b) = 0"
    using strcasecmp_swap [of "c_str b" "c_str a"]
    by (auto simp: equivalent_def case_compare_def)
  then show ?thesis
    by (simp add: strcasecmp_zero_iff c_str_no_NUL)
qed

lemma c_str_map_tolower: "map tolower (c_str s) = c_str (map tolower s)"
  by (induction s) (simp_all add: c_str_def tolower_NUL)

lemma equal_up_to_ascii_case_equivalent:
  "equal_up_to_ascii_case a b \<Longrightarrow> equivalent a b"
  by (simp add: equivalent_iff equal_up_to_ascii_case_def c_str_map_tolower)

lemma equivalent_trans: "equivalent a b \<Longrightarrow> equivalent b c \<Longrightarrow> equivalent a c"
  by (simp add: equivalent_iff)

lemma set_find_None_iff: "set_find k xs = None \<longleftrightarrow> (\<forall>e \<in> set xs. \<not> equivalent e k)"
  by (auto simp: set_find_def find_None_iff)

lemma set_insert_set: "set (set_insert k xs) = insert k (set xs)"
  by (induction xs) auto

lemma set_find_emplace: "equivalent k k' \<Longrightarrow> set_find k' (set_emplace k xs) \<noteq> None"
proof (cases "set_find k xs")
  case None
  assume kk: "equivalent k k'"
  from None have "set_emplace k xs = set_insert k xs"
    by (simp add: set_emplace_def)
  then have "k \<in> set (set_emplace k xs)"
    by (simp add: set_insert_set)
  with kk show ?thesis
    by (auto simp: set_find_None_iff)
next
  case (Some e)
  assume kk: "equivalent k k'"
  from Some obtain e' where "e' \<in> set xs" "equivalent e' k"
    by (metis set_find_None_iff option.distinct(1))
  then have "e' \<in> set xs" "equivalent e' k'"
    using kk equivalent_trans by blast+
  moreover from Some have "set_emplace k xs = xs"
    by (simp add: set_emplace_def)
  ultimately show ?thesis
    by (auto simp: set_find_None_iff)
qed

lemma map_of_object_assign: "map_of (object_assign k v kvs) = (map_of kvs)(k \<mapsto> v)"
  by (induction kvs) (auto simp: fun_upd_twist)

lemma json_at_json_assign:
  "json_assign k v j = Inr j' \<Longrightarrow> json_at j' k = Inr v"
  by (cases j) (auto simp: map_of_object_assign)

section \<open>The payload's claims\<close>

text \<open>
  Claim C2. When the set of names holds an element equal to the name up to ASCII case,
  \<^verbatim>\<open>add_claim\<close> without \<^verbatim>\<open>overwrite\<close> returns false and leaves the payload as
  it was, the JSON value and the set of names alike. In particular, once
  \<^verbatim>\<open>add_claim("sub", v)\<close> has returned true, \<^verbatim>\<open>add_claim("SUB", w)\<close> returns
  false and changes nothing, and \<^verbatim>\<open>has_claim_with_value("sub", v)\<close> returns true.
\<close>

theorem add_claim_no_overwrite_rejected:
  "(e \<in> set (claim_names' p) \<longrightarrow> equal_up_to_ascii_case e cname \<longrightarrow>
      add_claim cname cvalue False p = Inr (False, p)) \<and>
   (add_claim ''sub'' v False s = Inr (True, t) \<longrightarrow>
      add_claim ''SUB'' w False t = Inr (False, t) \<and>
      has_claim_with_value ''sub'' v t = Inr True)"
proof (intro conjI impI)
  assume "e \<in> set (claim_names' p)" and "equal_up_to_ascii_case e cname"
  then have "set_find cname (claim_names' p) \<noteq> None"
    by (auto simp: set_find_None_iff dest: equal_up_to_ascii_case_equivalent)
  then show "add_claim cname cvalue False p = Inr (False, p)"
    by (simp add: add_claim_def)
next
  assume a: "add_claim ''sub'' v False s = Inr (True, t)"
  then obtain j where j: "json_assign (c_str ''sub'') v (payload' s) = Inr j"
    and t: "t = \<lparr>payload' = j, claim_names' = set_emplace ''sub'' (claim_names' s)\<rparr>"
    by (auto simp: add_claim_def Let_def split: if_splits sum.splits)
  have eq: "equal_up_to_ascii_case ''sub'' ''SUB''"
    by code_simp
  have f1: "set_find ''SUB'' (claim_names' t) \<noteq> None"
    by (simp add: t set_find_emplace equal_up_to_ascii_case_equivalent [OF eq])
  have f2: "set_find ''sub'' (claim_names' t) \<noteq> None"
    by (simp add: t set_find_emplace equivalent_iff)
  have "c_str ''sub'' = ''sub''"
    by (simp add: c_str_def)
  with j have "json_at (payload' t) ''sub'' = Inr v"
    by (simp add: t json_at_json_assign)
  with f2 show "has_claim_with_value ''sub'' v t = Inr True"
    by (simp add: has_claim_with_value_def)
  from f1 show "add_claim ''SUB'' w False t = Inr (False, t)"
    by (simp add: add_claim_def)
qed

text \<open>
  The first part on a payload that holds \<open>aud\<close>, asked for \<open>Aud\<close>; the second part
  from the empty payload.
\<close>

theorem add_claim_no_overwrite_rejected_witness:
  "add_claim ''Aud'' (JInt 7) False
     \<lparr>payload' = JObject [(''aud'', JString ''a'')], claim_names' = [''aud'']\<rparr>
     = Inr (False, \<lparr>payload' = JObject [(''aud'', JString ''a'')], claim_names' = [''aud'']\<rparr>) \<and>
   add_claim ''sub'' (JString ''x'') False jwt_payload_default
     = Inr (True, \<lparr>payload' = JObject [(''sub'', JString ''x'')], claim_names' = [''sub'']\<rparr>) \<and>
   add_claim ''SUB'' (JString ''y'') False
     \<lparr>payload' = JObject [(''sub'', JString ''x'')], claim_names' = [''sub'']\<rparr>
     = Inr (False, \<lparr>payload' = JObject [(''sub'', JString ''x'')], claim_names' = [''sub'']\<rparr>) \<and>
   has_claim_with_value ''sub'' (JString ''x'')
     \<lparr>payload' = JObject [(''sub'', JString ''x'')], claim_names' = [''sub'']\<rparr> = Inr True"
proof -
  let ?p = "\<lparr>payload' = JObject [(''aud'', JString ''a'')], claim_names' = [''aud'']\<rparr>"
  let ?t = "\<lparr>payload' = JObject [(''sub'', JString ''x'')], claim_names' = [''sub'']\<rparr>"
  have h1: "''aud'' \<in> set (claim_names' ?p)"
    by simp
  have h2: "equal_up_to_ascii_case ''aud'' ''Aud''"
    by code_simp
  have h3: "add_claim ''sub'' (JString ''x'') False jwt_payload_default = Inr (True, ?t)"
    by code_simp
  show ?thesis
    using add_claim_no_overwrite_rejected
      [where e = "''aud''" and p = ?p and cname = "''Aud''" and cvalue = "JInt 7"
        and v = "JString ''x''" and s = jwt_payload_default and t = ?t and w = "JString ''y''"]
      h1 h2 h3
    by simp
qed

text \<open>
  Claim C6. Once \<^verbatim>\<open>add_claim\<close> has returned true for a name, \<^verbatim>\<open>has_claim\<close>
  returns true for every name equal to it up to ASCII case.
\<close>

theorem has_claim_case_insensitive:
  assumes "add_claim n1 v ow p = Inr (True, p')" and "equal_up_to_ascii_case n1 n2"
  shows "has_claim n2 p'"
proof -
  from assms(1) have "claim_names' p' = set_emplace n1 (claim_names' p)"
    by (auto simp: add_claim_def Let_def split: if_splits sum.splits)
  moreover from assms(2) have "equivalent n1 n2"
    by (rule equal_up_to_ascii_case_equivalent)
  ultimately have "set_find n2 (claim_names' p') \<noteq> None"
    by (simp add: set_find_emplace)
  then show ?thesis
    by (auto simp: has_claim_def set_count_def)
qed

theorem has_claim_case_insensitive_witness:
  "add_claim ''Iss'' (JString ''me'') False jwt_payload_default
     = Inr (True, \<lparr>payload' = JObject [(''Iss'', JString ''me'')], claim_names' = [''Iss'']\<rparr>) \<and>
   equal_up_to_ascii_case ''Iss'' ''iSS'' \<and>
   has_claim ''iSS'' \<lparr>payload' = JObject [(''Iss'', JString ''me'')], claim_names' = [''Iss'']\<rparr>"
proof -
  let ?p1 = "\<lparr>payload' = JObject [(''Iss'', JString ''me'')], claim_names' = [''Iss'']\<rparr>"
  have h1: "add_claim ''Iss'' (JString ''me'') False jwt_payload_default = Inr (True, ?p1)"
    by code_simp
  have h2: "equal_up_to_ascii_case ''Iss'' ''iSS''"
    by code_simp
  show ?thesis
    using has_claim_case_insensitive [OF h1 h2] h1 h2 by simp
qed

text \<open>
  Claim C9. Let the payload hold a claim \<open>c\<close>: the name is in the set and the JSON
  object has an entry for it, under the key \<^verbatim>\<open>add_claim\<close> gives it (the name read
  as a C string, which is the name itself unless it has a zero byte). For every name
  equal to \<open>c\<close> up to ASCII case, \<^verbatim>\<open>add_claim\<close> with \<^verbatim>\<open>overwrite\<close> returns
  true, leaves the set of names as it was, and stores the value in the JSON object under
  the name as it was given. When that key is not the key of \<open>c\<close>, the entry of \<open>c\<close>
  keeps its value: the object then has two keys that differ only by case, and the set
  has one name.
\<close>

theorem add_claim_overwrite_other_casing:
  assumes "payload' p = JObject kvs" and "map_of kvs (c_str c) = Some v0"
    and "c \<in> set (claim_names' p)" and "equal_up_to_ascii_case c cname"
  shows "\<exists>p'. add_claim cname cvalue True p = Inr (True, p') \<and>
            claim_names' p' = claim_names' p \<and>
            json_at (payload' p') (c_str cname) = Inr cvalue \<and>
            json_at (payload' p') (c_str c)
              = Inr (if c_str c = c_str cname then cvalue else v0)"
proof -
  from assms(3,4) have "set_find cname (claim_names' p) \<noteq> None"
    by (auto simp: set_find_None_iff dest: equal_up_to_ascii_case_equivalent)
  then have names: "set_emplace cname (claim_names' p) = claim_names' p"
    by (auto simp: set_emplace_def)
  let ?j = "JObject (object_assign (c_str cname) cvalue kvs)"
  let ?p' = "\<lparr>payload' = ?j, claim_names' = claim_names' p\<rparr>"
  have "add_claim cname cvalue True p = Inr (True, ?p')"
    by (simp add: add_claim_def assms(1) names)
  moreover have "json_at ?j (c_str cname) = Inr cvalue"
    by (simp add: map_of_object_assign)
  moreover have "json_at ?j (c_str c) = Inr (if c_str c = c_str cname then cvalue else v0)"
    by (simp add: map_of_object_assign assms(2))
  ultimately show ?thesis
    by simp
qed

text \<open>
  On the payload that holds \<open>sub\<close>, overwriting \<open>SUB\<close> gives an object with both
  keys and a set with the one name \<open>sub\<close>.
\<close>

theorem add_claim_overwrite_other_casing_witness:
  "add_claim ''SUB'' (JString ''y'') True
     \<lparr>payload' = JObject [(''sub'', JString ''x'')], claim_names' = [''sub'']\<rparr>
     = Inr (True, \<lparr>payload' = JObject [(''SUB'', JString ''y''), (''sub'', JString ''x'')],
                    claim_names' = [''sub'']\<rparr>) \<and>
   json_at (JObject [(''SUB'', JString ''y''), (''sub'', JString ''x'')]) ''SUB'' = Inr (JString ''y'') \<and>
   json_at (JObject [(''SUB'', JString ''y''), (''sub'', JString ''x'')]) ''sub'' = Inr (JString ''x'')"
proof -
  let ?p = "\<lparr>payload' = JObject [(''sub'', JString ''x'')], claim_names' = [''sub'']\<rparr>"
  let ?p' = "\<lparr>payload' = JObject [(''SUB'', JString ''y''), (''sub'', JString ''x'')],
              claim_names' = [''sub'']\<rparr>"
  have c1: "c_str ''sub'' = ''sub''" and c2: "c_str ''SUB'' = ''SUB''"
    by (simp_all add: c_str_def)
  have h1: "payload' ?p = JObject [(''sub'', JString ''x'')]"
    by simp
  have h2: "map_of [(''sub'', JString ''x'')] (c_str ''sub'') = Some (JString ''x'')"
    by (simp add: c1)
  have h3: "''sub'' \<in> set (claim_names' ?p)"
    by simp
  have h4: "equal_up_to_ascii_case ''sub'' ''SUB''"
    by code_simp
  have ev: "add_claim ''SUB'' (JString ''y'') True ?p = Inr (True, ?p')"
    by code_simp
  from add_claim_overwrite_other_casing [OF h1 h2 h3 h4, of "JString ''y''"]
  obtain q where q: "add_claim ''SUB'' (JString ''y'') True ?p = Inr (True, q)"
      "json_at (payload' q) (c_str ''SUB'') = Inr (JString ''y'')"
      "json_at (payload' q) (c_str ''sub'')
         = Inr (if c_str ''sub'' = c_str ''SUB'' then JString ''y'' else JString ''x'')"
    by blast
  from ev q(1) have "q = ?p'"
    by simp
  with q(2,3) ev show ?thesis
    by (simp add: c1 c2)
qed

text \<open>
  Claim C3. \<^verbatim>\<open>has_claim_with_value\<close> finds the name in the set without regard to
  case, and then indexes the JSON object by the name it was asked for, not by the name
  the set holds. After \<^verbatim>\<open>add_claim("sub", "x")\<close> on the empty payload,
  \<^verbatim>\<open>has_claim("SUB")\<close> is true, and \<^verbatim>\<open>has_claim_with_value("SUB", "x")\<close> does
  not return: the object has no key \<open>SUB\<close> and the JSON library's assertion fails.
\<close>

theorem has_claim_with_value_other_casing:
  "add_claim ''sub'' (JString ''x'') False jwt_payload_default
     = Inr (True, \<lparr>payload' = JObject [(''sub'', JString ''x'')], claim_names' = [''sub'']\<rparr>) \<and>
   has_claim ''SUB'' \<lparr>payload' = JObject [(''sub'', JString ''x'')], claim_names' = [''sub'']\<rparr> \<and>
   has_claim_with_value ''SUB'' (JString ''x'')
     \<lparr>payload' = JObject [(''sub'', JString ''x'')], claim_names' = [''sub'']\<rparr>
     = Inl (Assertion_failed ''key not found'')"
  by code_simp

end
